theory Spec2Isabelle
  imports Main "HOL-Library.Word"
begin

section \<open>Errors and the error translator (pkg/grpc/client.go)\<close>

text \<open>
  \<^verbatim>\<open>codes.Code\<close> of the gRPC library is a \<^verbatim>\<open>uint32\<close>; the library names the
  values 0 to 16, and a status received from a peer may carry any other number.
\<close>

type_synonym Code = "32 word"

definition codes_OK :: Code where "codes_OK = 0"
definition codes_Canceled :: Code where "codes_Canceled = 1"
definition codes_Unknown :: Code where "codes_Unknown = 2"
definition codes_InvalidArgument :: Code where "codes_InvalidArgument = 3"
definition codes_DeadlineExceeded :: Code where "codes_DeadlineExceeded = 4"
definition codes_NotFound :: Code where "codes_NotFound = 5"
definition codes_AlreadyExists :: Code where "codes_AlreadyExists = 6"
definition codes_PermissionDenied :: Code where "codes_PermissionDenied = 7"
definition codes_ResourceExhausted :: Code where "codes_ResourceExhausted = 8"
definition codes_FailedPrecondition :: Code where "codes_FailedPrecondition = 9"
definition codes_Aborted :: Code where "codes_Aborted = 10"
definition codes_OutOfRange :: Code where "codes_OutOfRange = 11"
definition codes_Unimplemented :: Code where "codes_Unimplemented = 12"
definition codes_Internal :: Code where "codes_Internal = 13"
definition codes_Unavailable :: Code where "codes_Unavailable = 14"
definition codes_DataLoss :: Code where "codes_DataLoss = 15"
definition codes_Unauthenticated :: Code where "codes_Unauthenticated = 16"

record Status =
  Code :: Code
  Message :: string

text \<open>
  A non-nil value of Go's \<^verbatim>\<open>error\<close> interface. The three sentinels are the package
  variables of client.go (lines 18 to 22), made by \<^verbatim>\<open>errors.New\<close> and compared by
  identity. \<open>StatusErr c m\<close> is any error from which the gRPC library extracts a status
  with code \<open>c\<close> and message \<open>m\<close>; \<open>PlainErr m\<close> is any other error, with text \<open>m\<close>
  (a dial failure, a context error, an error of another package). A nil error is
  \<open>None\<close> of \<open>error option\<close>.
\<close>

datatype error =
    ErrNotFound
  | ErrUnauthorized
  | ErrInternal
  | StatusErr Code string
  | PlainErr string

text \<open>
  \<^verbatim>\<open>status.FromError\<close> on a non-nil error: the status the error carries and
  \<^verbatim>\<open>ok = true\<close>, or else a status of code Unknown around the error's text and
  \<^verbatim>\<open>ok = false\<close>. The text of a sentinel is the string it was made from.
\<close>

fun FromError :: "error \<Rightarrow> Status \<times> bool" where
  "FromError (StatusErr c m) = (\<lparr>Code = c, Message = m\<rparr>, True)"
| "FromError ErrNotFound = (\<lparr>Code = codes_Unknown, Message = ''resource not found''\<rparr>, False)"
| "FromError ErrUnauthorized = (\<lparr>Code = codes_Unknown, Message = ''unauthorized''\<rparr>, False)"
| "FromError ErrInternal = (\<lparr>Code = codes_Unknown, Message = ''internal error''\<rparr>, False)"
| "FromError (PlainErr m) = (\<lparr>Code = codes_Unknown, Message = m\<rparr>, False)"

definition handleGRPCError :: "error option \<Rightarrow> error option" where
  "handleGRPCError err =
     (case err of
        None \<Rightarrow> None
      | Some e \<Rightarrow>
          (let (st, ok) = FromError e in
           if \<not> ok then err
           else if Code st = codes_NotFound then Some ErrNotFound
           else if Code st = codes_PermissionDenied \<or> Code st = codes_Unauthenticated
             then Some ErrUnauthorized
           else Some ErrInternal))"

text \<open>
  The kinds of the domain error taxonomy, and the kind an error value of the code
  denotes. The code declares a sentinel for three of the kinds only; a value that is not
  a sentinel denotes no kind.
\<close>

datatype ErrorKind = NotFound | Unauthorized | Conflict | Internal | Canceled

fun errorKind :: "error \<Rightarrow> ErrorKind option" where
  "errorKind ErrNotFound = Some NotFound"
| "errorKind ErrUnauthorized = Some Unauthorized"
| "errorKind ErrInternal = Some Internal"
| "errorKind (StatusErr c m) = None"
| "errorKind (PlainErr m) = None"

section \<open>Models (internal/models), as far as client.go determines them\<close>

text \<open>
  A \<^verbatim>\<open>float64\<close> is kept as the expression that computes it: the model fixes which
  operations the code applies to which operands and leaves the rounding of IEEE 754
  arithmetic out. No statement below depends on the numeric value of a price.
\<close>

datatype float64 =
    F64_zero
  | F64_29_99
  | F64_of_int32 "32 word"
  | F64_mul float64 float64
  | F64_add float64 float64

text \<open>
  Modelled from the spec: the types of internal/models, which is not among the sources.
  The spec names the entities (a catalog product, the order draft, the committed order);
  the fields and their types are the ones client.go reads and writes. Of
  \<^verbatim>\<open>models.Product\<close> these are the fields \<^verbatim>\<open>GetProduct\<close> sets, and the seller, which it
  leaves at the zero value.
\<close>

record Product =
  ID :: string
  Name :: string
  Description :: string
  Price :: float64
  Category :: string
  SellerID :: string
  Available :: bool

text \<open>
  Modelled from the spec: the order draft (\<^verbatim>\<open>models.CreateOrderRequest\<close>) and the
  committed order (\<^verbatim>\<open>models.Order\<close>) of internal/models. The records carry the fields
  that \<^verbatim>\<open>CreateOrder\<close> reads and writes; a quantity has the width that
  \<^verbatim>\<open>ReserveInventory\<close> takes; the type of the shipping address is left open. A
  request reaches the methods as a pointer, which is taken to be non-nil.
\<close>

record OrderItemRequest =
  ProductID :: string
  Quantity :: "32 word"

record 'addr CreateOrderRequest =
  Items :: "OrderItemRequest list"
  ShippingAddr :: 'addr

record OrderItem =
  ProductID :: string
  Quantity :: "32 word"
  UnitPrice :: float64
  TotalPrice :: float64

record 'addr Order =
  ID :: string
  UserID :: string
  Items :: "OrderItem list"
  Status :: string
  TotalAmount :: float64
  ShippingAddr :: 'addr
  ReservationIDs :: "string list"


section \<open>Service methods (stand-ins for the remote calls)\<close>

text \<open>
  The receiver and the context are parameters that the bodies below never read; they are
  kept, with arbitrary types, so that each definition has the signature of its method.
  A returned pointer is an \<open>option\<close>, a returned \<^verbatim>\<open>error\<close> an \<open>error option\<close>.
\<close>

definition GetProduct :: "'c \<Rightarrow> 'ctx \<Rightarrow> string \<Rightarrow> Product option \<times> error option" where
  "GetProduct c ctx id' =
     (if id' = ''not-found'' then (None, Some ErrNotFound)
      else (Some \<lparr>Product.ID = id', Name = ''Sample Product'',
                   Description = ''A sample product for testing'',
                   Price = F64_29_99, Category = ''electronics'',
                   SellerID = '''', Available = True\<rparr>, None))"

definition ReserveInventory ::
  "'c \<Rightarrow> 'ctx \<Rightarrow> string \<Rightarrow> 32 word \<Rightarrow> string \<times> error option" where
  "ReserveInventory c ctx productID quantity = (''reservation-'' @ productID, None)"




section \<open>Connections\<close>

text \<open>
  \<^verbatim>\<open>connectivity.State\<close> of the gRPC library is an \<^verbatim>\<open>int\<close> with five named values;
  its \<^verbatim>\<open>String\<close> method gives every other number the label \<^verbatim>\<open>INVALID_STATE\<close>.
\<close>

type_synonym State = int

definition connectivity_Idle :: State where "connectivity_Idle = 0"
definition connectivity_Connecting :: State where "connectivity_Connecting = 1"
definition connectivity_Ready :: State where "connectivity_Ready = 2"
definition connectivity_TransientFailure :: State where "connectivity_TransientFailure = 3"
definition connectivity_Shutdown :: State where "connectivity_Shutdown = 4"

definition State_String :: "State \<Rightarrow> string" where
  "State_String s =
     (if s = connectivity_Idle then ''IDLE''
      else if s = connectivity_Connecting then ''CONNECTING''
      else if s = connectivity_Ready then ''READY''
      else if s = connectivity_TransientFailure then ''TRANSIENT_FAILURE''
      else if s = connectivity_Shutdown then ''SHUTDOWN''
      else ''INVALID_STATE'')"

text \<open>
  A \<^verbatim>\<open>*grpc.ClientConn\<close> is a reference into a store of connection objects, or nil
  (\<open>None\<close>). Two handles may hold the same reference. Of a connection object the model
  keeps what \<^verbatim>\<open>Close\<close> and \<^verbatim>\<open>GetState\<close> touch. A method called on a nil handle
  dereferences nil and panics.
\<close>

record ClientConn =
  cc_target :: string
  cc_state :: State

type_synonym ref = nat
type_synonym heap = "ref \<Rightarrow> ClientConn"

datatype panic = NilPointerDereference



definition GetState :: "ref option \<Rightarrow> heap \<Rightarrow> panic + State" where
  "GetState conn h =
     (case conn of
        None \<Rightarrow> Inl NilPointerDereference
      | Some a \<Rightarrow> Inr (cc_state (h a)))"

record Config =
  Port :: string
  UserServiceAddr :: string
  ListingServiceAddr :: string
  InventoryServiceAddr :: string

record Clients =
  userConn :: "ref option"
  listingConn :: "ref option"
  inventoryConn :: "ref option"
  config :: "Config option"








text \<open>
  \<^verbatim>\<open>HealthCheck\<close> and its local function \<^verbatim>\<open>isHealthy\<close>, on a \<^verbatim>\<open>Clients\<close> that exists
  (a receiver that is not nil).
\<close>

definition isHealthy :: "heap \<Rightarrow> ref option \<Rightarrow> panic + bool" where
  "isHealthy h conn =
     (if conn = None then Inr False
      else (case GetState conn h of
              Inl p \<Rightarrow> Inl p
            | Inr st \<Rightarrow>
                (let state = State_String st
                 in Inr (state = ''READY'' \<or> state = ''IDLE''))))"

definition HealthCheck :: "Clients \<Rightarrow> 'ctx \<Rightarrow> heap \<Rightarrow> panic + (string \<rightharpoonup> bool)" where
  "HealthCheck c ctx h =
     (case isHealthy h (userConn c) of
        Inl p \<Rightarrow> Inl p
      | Inr u \<Rightarrow>
     (case isHealthy h (listingConn c) of
        Inl p \<Rightarrow> Inl p
      | Inr l \<Rightarrow>
     (case isHealthy h (inventoryConn c) of
        Inl p \<Rightarrow> Inl p
      | Inr i \<Rightarrow>
          Inr [''user-service'' \<mapsto> u, ''listing-service'' \<mapsto> l,
               ''inventory-service'' \<mapsto> i])))"

section \<open>The order-creation saga\<close>

text \<open>
  The inventory and order services behind the channels are opaque: a call takes the state
  of the world behind the gateway to an answer and a new state. An answer is the pair a
  Go call returns, a value and an \<^verbatim>\<open>error\<close>; the error is the raw failure of the
  transport.
\<close>

record ('addr, 's) Remote =
  Reserve :: "string \<Rightarrow> 32 word \<Rightarrow> 's \<Rightarrow> (string \<times> error option) \<times> 's"
  Cancel :: "string \<Rightarrow> 's \<Rightarrow> error option \<times> 's"
  Create :: "string \<Rightarrow> 'addr CreateOrderRequest \<Rightarrow> string list \<Rightarrow> 's
               \<Rightarrow> ('addr Order option \<times> error option) \<times> 's"

text \<open>
  Modelled from the spec: the Inventory and Order facades over real remote calls, which
  client.go only has as stand-ins that never fail. A facade issues the remote call and
  runs its failure through the error translator before returning.
\<close>

definition Inventory_Reserve ::
  "('addr, 's) Remote \<Rightarrow> string \<Rightarrow> 32 word \<Rightarrow> 's \<Rightarrow> (string \<times> error option) \<times> 's" where
  "Inventory_Reserve R productID quantity s =
     (case Reserve R productID quantity s of
        ((token, err), s') \<Rightarrow> ((token, handleGRPCError err), s'))"

definition Inventory_Cancel ::
  "('addr, 's) Remote \<Rightarrow> string \<Rightarrow> 's \<Rightarrow> error option \<times> 's" where
  "Inventory_Cancel R token s =
     (case Cancel R token s of (err, s') \<Rightarrow> (handleGRPCError err, s'))"

definition Order_Create ::
  "('addr, 's) Remote \<Rightarrow> string \<Rightarrow> 'addr CreateOrderRequest \<Rightarrow> string list \<Rightarrow> 's
     \<Rightarrow> ('addr Order option \<times> error option) \<times> 's" where
  "Order_Create R userID draft ledger s =
     (case Create R userID draft ledger s of
        ((order, err), s') \<Rightarrow> ((order, handleGRPCError err), s'))"

text \<open>
  Modelled from the spec: the Order Creation Coordinator, whose code (the order handler)
  is not among the sources at hand. Step 1 reserves item by item, in list order, appends
  each token to the ledger and stops at the first failure.
\<close>

fun collectReservations ::
  "('addr, 's) Remote \<Rightarrow> OrderItemRequest list \<Rightarrow> string list \<Rightarrow> 's
     \<Rightarrow> (string list \<times> error option) \<times> 's" where
  "collectReservations R [] ledger s = ((ledger, None), s)"
| "collectReservations R (item # rest) ledger s =
     (case Inventory_Reserve R (OrderItemRequest.ProductID item)
             (OrderItemRequest.Quantity item) s of
        ((token, None), s') \<Rightarrow> collectReservations R rest (ledger @ [token]) s'
      | ((token, Some e), s') \<Rightarrow> ((ledger, Some e), s'))"

text \<open>
  Modelled from the spec: step 3 of the coordinator. Every token of the ledger gets a
  cancellation call, oldest first; a cancellation that fails is reported and the loop
  goes on.
\<close>

fun compensate :: "('addr, 's) Remote \<Rightarrow> string list \<Rightarrow> 's \<Rightarrow> 's" where
  "compensate R [] s = s"
| "compensate R (token # rest) s =
     (case Inventory_Cancel R token s of (err, s') \<Rightarrow> compensate R rest s')"

text \<open>
  Modelled from the spec: the coordinator's entry point \<^verbatim>\<open>CreateOrder(userID, draft)\<close>.
  When step 1 fails it compensates and returns that failure; otherwise it calls
  Order.Create with the ledger and returns the order, or compensates and returns the
  failure of Order.Create.
\<close>

definition Coordinator_CreateOrder ::
  "('addr, 's) Remote \<Rightarrow> string \<Rightarrow> 'addr CreateOrderRequest \<Rightarrow> 's
     \<Rightarrow> ('addr Order option \<times> error option) \<times> 's" where
  "Coordinator_CreateOrder R userID draft s =
     (case collectReservations R (CreateOrderRequest.Items draft) [] s of
        ((ledger, Some e), s1) \<Rightarrow> ((None, Some e), compensate R ledger s1)
      | ((ledger, None), s1) \<Rightarrow>
          (case Order_Create R userID draft ledger s1 of
             ((order, None), s2) \<Rightarrow> ((order, None), s2)
           | ((order, Some e), s2) \<Rightarrow> ((None, Some e), compensate R ledger s2)))"


subsection \<open>The calls of one run\<close>

text \<open>
  To speak about the calls a run makes, the remote services are wrapped so that every
  call is appended, with its answer, to a log kept beside the state.
\<close>

datatype 'addr Event =
    ReserveCall string "32 word" string "error option"
  | CancelCall string "error option"
  | CreateCall string "'addr CreateOrderRequest" "string list" "error option"

definition traced :: "('addr, 's) Remote \<Rightarrow> ('addr, 's \<times> 'addr Event list) Remote" where
  "traced R =
     \<lparr>Reserve = (\<lambda>productID quantity (s, tr).
                   case Reserve R productID quantity s of
                     ((token, err), s') \<Rightarrow>
                       ((token, err), (s', tr @ [ReserveCall productID quantity token err]))),
      Cancel = (\<lambda>token (s, tr).
                  case Cancel R token s of
                    (err, s') \<Rightarrow> (err, (s', tr @ [CancelCall token err]))),
      Create = (\<lambda>userID draft ledger (s, tr).
                  case Create R userID draft ledger s of
                    ((order, err), s') \<Rightarrow>
                      ((order, err), (s', tr @ [CreateCall userID draft ledger err])))\<rparr>"

text \<open>
  The reservation calls of a log, in order, each with its answer; the tokens of those
  that succeeded; the tokens of the cancellation calls; the calls of Order.Create.
\<close>

fun reservations ::
  "'addr Event list \<Rightarrow> (string \<times> 32 word \<times> string \<times> error option) list" where
  "reservations [] = []"
| "reservations (ReserveCall p q t e # tr) = (p, q, t, e) # reservations tr"
| "reservations (ev # tr) = reservations tr"

fun acquired :: "'addr Event list \<Rightarrow> string list" where
  "acquired [] = []"
| "acquired (ReserveCall p q t None # tr) = t # acquired tr"
| "acquired (ev # tr) = acquired tr"

fun cancelled :: "'addr Event list \<Rightarrow> string list" where
  "cancelled [] = []"
| "cancelled (CancelCall t e # tr) = t # cancelled tr"
| "cancelled (ev # tr) = cancelled tr"

fun creates ::
  "'addr Event list
     \<Rightarrow> (string \<times> 'addr CreateOrderRequest \<times> string list \<times> error option) list" where
  "creates [] = []"
| "creates (CreateCall u d l e # tr) = (u, d, l, e) # creates tr"
| "creates (ev # tr) = creates tr"

text \<open>Logs of a given shape: successful reservations of a list of items, and cancellations.\<close>

definition reserveEvents :: "OrderItemRequest list \<Rightarrow> string list \<Rightarrow> 'addr Event list" where
  "reserveEvents items toks =
     map2 (\<lambda>i t. ReserveCall (OrderItemRequest.ProductID i) (OrderItemRequest.Quantity i) t None)
       items toks"

definition succeeded ::
  "OrderItemRequest list \<Rightarrow> string list \<Rightarrow> (string \<times> 32 word \<times> string \<times> error option) list" where
  "succeeded items toks =
     map2 (\<lambda>i t. (OrderItemRequest.ProductID i, OrderItemRequest.Quantity i, t, None))
       items toks"

definition cancelEvents :: "string list \<Rightarrow> error option list \<Rightarrow> 'addr Event list" where
  "cancelEvents toks errs = map2 CancelCall toks errs"


subsection \<open>Two concrete worlds\<close>

text \<open>
  A world for running the saga on failures: the inventory has no stock of product P2
  and issues the token T-p for any other product p, no cancellation gets through, and the
  order service knows no user. The state counts the calls received.
\<close>

definition failingRemote :: "(string, nat) Remote" where
  "failingRemote =
     \<lparr>Reserve = (\<lambda>productID quantity n.
                   if productID = ''P2''
                   then (([], Some (StatusErr codes_ResourceExhausted ''insufficient stock'')),
                         Suc n)
                   else ((''T-'' @ productID, None), Suc n)),
      Cancel = (\<lambda>token n. (Some (StatusErr codes_Unavailable ''inventory unreachable''), Suc n)),
      Create = (\<lambda>userID draft ledger n.
                  ((None, Some (StatusErr codes_NotFound ''no such user'')), Suc n))\<rparr>"

definition draft_P1_P2 :: "string CreateOrderRequest" where
  "draft_P1_P2 =
     \<lparr>CreateOrderRequest.Items =
        [\<lparr>OrderItemRequest.ProductID = ''P1'', OrderItemRequest.Quantity = 2\<rparr>,
         \<lparr>OrderItemRequest.ProductID = ''P2'', OrderItemRequest.Quantity = 1\<rparr>],
      CreateOrderRequest.ShippingAddr = ''1 Main St''\<rparr>"

definition draft_P1_P3 :: "string CreateOrderRequest" where
  "draft_P1_P3 =
     \<lparr>CreateOrderRequest.Items =
        [\<lparr>OrderItemRequest.ProductID = ''P1'', OrderItemRequest.Quantity = 2\<rparr>,
         \<lparr>OrderItemRequest.ProductID = ''P3'', OrderItemRequest.Quantity = 1\<rparr>],
      CreateOrderRequest.ShippingAddr = ''1 Main St''\<rparr>"


section \<open>Facts\<close>

lemmas codes_defs =
  codes_OK_def codes_Canceled_def codes_Unknown_def codes_InvalidArgument_def
  codes_DeadlineExceeded_def codes_NotFound_def codes_AlreadyExists_def
  codes_PermissionDenied_def codes_ResourceExhausted_def codes_FailedPrecondition_def
  codes_Aborted_def codes_OutOfRange_def codes_Unimplemented_def codes_Internal_def
  codes_Unavailable_def codes_DataLoss_def codes_Unauthenticated_def

lemmas connectivity_defs =
  connectivity_Idle_def connectivity_Connecting_def connectivity_Ready_def
  connectivity_TransientFailure_def connectivity_Shutdown_def

section \<open>The error translator\<close>

text \<open>
  Claim C7. A nil failure translates to no error; a status failure of code NotFound
  translates to the sentinel \<open>ErrNotFound\<close>, of kind NotFound; a status failure of code
  PermissionDenied or Unauthenticated translates to the sentinel \<open>ErrUnauthorized\<close>, of
  kind Unauthorized. The message of the status plays no part.
\<close>

theorem handleGRPCError_nil_notfound_unauthorized:
  "handleGRPCError None = None
   \<and> handleGRPCError (Some (StatusErr codes_NotFound m)) = Some ErrNotFound
   \<and> handleGRPCError (Some (StatusErr codes_PermissionDenied m)) = Some ErrUnauthorized
   \<and> handleGRPCError (Some (StatusErr codes_Unauthenticated m)) = Some ErrUnauthorized
   \<and> errorKind ErrNotFound = Some NotFound
   \<and> errorKind ErrUnauthorized = Some Unauthorized"
  by (simp add: handleGRPCError_def codes_defs)

text \<open>
  Claim C2, as stated, fails: a status failure of code ResourceExhausted whose message
  reports insufficient stock falls to the default branch of the switch and becomes
  \<open>ErrInternal\<close>, whose kind is Internal and not Conflict.
\<close>

theorem handleGRPCError_resource_exhausted_not_conflict:
  "handleGRPCError (Some (StatusErr codes_ResourceExhausted ''insufficient stock''))
     = Some ErrInternal
   \<and> errorKind ErrInternal \<noteq> Some Conflict"
  by (simp add: handleGRPCError_def codes_defs)

text \<open>
  Claim C2, amended. A status failure of code ResourceExhausted or InvalidArgument,
  whatever its message and whichever service produced it, translates to \<open>ErrInternal\<close>,
  of kind Internal.
\<close>

theorem handleGRPCError_resource_exhausted_internal:
  "handleGRPCError (Some (StatusErr codes_ResourceExhausted m)) = Some ErrInternal
   \<and> handleGRPCError (Some (StatusErr codes_InvalidArgument m)) = Some ErrInternal
   \<and> errorKind ErrInternal = Some Internal"
  by (simp add: handleGRPCError_def codes_defs)

text \<open>
  Claim C3, as stated, fails: an error that carries no status (here a transport error
  with the text of a refused connection) is returned as it came, not as \<open>ErrInternal\<close>,
  and it denotes no kind of the taxonomy.
\<close>

theorem handleGRPCError_plain_error_passes_through:
  "handleGRPCError (Some (PlainErr ''connection refused''))
     = Some (PlainErr ''connection refused'')
   \<and> handleGRPCError (Some (PlainErr ''connection refused'')) \<noteq> Some ErrInternal
   \<and> errorKind (PlainErr ''connection refused'') = None"
  by (simp add: handleGRPCError_def)

text \<open>
  Claim C3, amended. A non-nil failure from which no status can be extracted is returned
  unchanged. A failure that carries a status translates to \<open>ErrInternal\<close> whenever its
  code is none of NotFound, PermissionDenied and Unauthenticated; that covers the code
  Unknown and every number the library gives no name.
\<close>

theorem handleGRPCError_unrecognized:
  "(snd (FromError e) = False \<longrightarrow> handleGRPCError (Some e) = Some e)
   \<and> (c \<noteq> codes_NotFound \<and> c \<noteq> codes_PermissionDenied \<and> c \<noteq> codes_Unauthenticated
        \<longrightarrow> handleGRPCError (Some (StatusErr c m)) = Some ErrInternal)"
  by (cases e) (simp_all add: handleGRPCError_def)

theorem handleGRPCError_unrecognized_witness:
  "snd (FromError (PlainErr ''EOF'')) = False
   \<and> handleGRPCError (Some (PlainErr ''EOF'')) = Some (PlainErr ''EOF'')
   \<and> (99 :: Code) \<noteq> codes_NotFound \<and> (99 :: Code) \<noteq> codes_PermissionDenied
   \<and> (99 :: Code) \<noteq> codes_Unauthenticated
   \<and> handleGRPCError (Some (StatusErr 99 ''''))  = Some ErrInternal"
  using handleGRPCError_unrecognized [of "PlainErr ''EOF''" 99 "''''"]
  by (simp add: codes_defs)

section \<open>The catalog and inventory stand-ins\<close>

text \<open>
  Claim C9. \<^verbatim>\<open>GetProduct\<close> returns the error \<open>ErrNotFound\<close> (and no product) exactly
  when the id is the string \<^verbatim>\<open>not-found\<close>; for every other id it returns no error and a
  product whose \<open>ID\<close> is the id asked for.
\<close>

theorem GetProduct_not_found_iff:
  "(snd (GetProduct c ctx id') = Some ErrNotFound) = (id' = ''not-found'')
   \<and> (id' \<noteq> ''not-found'' \<longrightarrow>
        (\<exists>p. GetProduct c ctx id' = (Some p, None) \<and> Product.ID p = id'))
   \<and> (id' = ''not-found'' \<longrightarrow> GetProduct c ctx id' = (None, Some ErrNotFound))"
  by (simp add: GetProduct_def)

theorem GetProduct_not_found_iff_witness:
  "''prod-001'' \<noteq> ''not-found''
   \<and> (\<exists>p. GetProduct () () ''prod-001'' = (Some p, None) \<and> Product.ID p = ''prod-001'')
   \<and> GetProduct () () ''not-found'' = (None, Some ErrNotFound)"
  using GetProduct_not_found_iff [of "()" "()" "''prod-001''"]
    GetProduct_not_found_iff [of "()" "()" "''not-found''"]
  by simp

text \<open>
  Claim C10. \<^verbatim>\<open>ReserveInventory\<close> succeeds for every product id and every quantity,
  and its token is \<^verbatim>\<open>reservation-\<close> followed by the product id: the same token for any
  two quantities, and so for any two calls on the same product.
\<close>

theorem ReserveInventory_token:
  "ReserveInventory c ctx productID quantity = (''reservation-'' @ productID, None)
   \<and> ReserveInventory c ctx productID quantity = ReserveInventory c' ctx' productID quantity'"
  by (simp add: ReserveInventory_def)

section \<open>Health and shutdown\<close>

lemma State_String_READY: "(State_String s = ''READY'') = (s = connectivity_Ready)"
  by (simp add: State_String_def connectivity_defs)

lemma State_String_IDLE: "(State_String s = ''IDLE'') = (s = connectivity_Idle)"
  by (simp add: State_String_def connectivity_defs)

lemma isHealthy_eq:
  "isHealthy h conn =
     Inr (case conn of None \<Rightarrow> False
          | Some a \<Rightarrow> cc_state (h a) = connectivity_Ready \<or> cc_state (h a) = connectivity_Idle)"
  by (simp add: isHealthy_def GetState_def State_String_READY State_String_IDLE
      split: option.split)

text \<open>
  Claim C5. \<^verbatim>\<open>HealthCheck\<close> returns a map over exactly the three configured services,
  and each service is mapped to true if and only if its handle is not nil and the state
  of its connection is Ready or Idle. A nil handle, the states Connecting,
  TransientFailure and Shutdown, and every number that is no state at all (whose label
  is \<^verbatim>\<open>INVALID_STATE\<close>) give false.
\<close>

theorem HealthCheck_ready_or_idle:
  "\<exists>m. HealthCheck c ctx h = Inr m
     \<and> dom m = {''user-service'', ''listing-service'', ''inventory-service''}
     \<and> m ''user-service'' =
         Some (case userConn c of None \<Rightarrow> False
               | Some a \<Rightarrow> cc_state (h a) = connectivity_Ready
                            \<or> cc_state (h a) = connectivity_Idle)
     \<and> m ''listing-service'' =
         Some (case listingConn c of None \<Rightarrow> False
               | Some a \<Rightarrow> cc_state (h a) = connectivity_Ready
                            \<or> cc_state (h a) = connectivity_Idle)
     \<and> m ''inventory-service'' =
         Some (case inventoryConn c of None \<Rightarrow> False
               | Some a \<Rightarrow> cc_state (h a) = connectivity_Ready
                            \<or> cc_state (h a) = connectivity_Idle)"
  by (auto simp add: HealthCheck_def isHealthy_eq)









section \<open>The order-creation saga: the calls of a run\<close>

lemma handleGRPCError_Some: "\<exists>e'. handleGRPCError (Some e) = Some e'"
  by (cases e) (simp_all add: handleGRPCError_def)

lemma handleGRPCError_None [simp]: "handleGRPCError None = None"
  by (simp add: handleGRPCError_def)

lemma handleGRPCError_eq_None [simp]: "(handleGRPCError err = None) = (err = None)"
  using handleGRPCError_Some [of "the err"] by (cases err) (auto simp: handleGRPCError_def)

lemma traced_Reserve:
  "Inventory_Reserve (traced R) p q (s, tr) =
     (case Reserve R p q s of
        ((t, e), s') \<Rightarrow> ((t, handleGRPCError e), (s', tr @ [ReserveCall p q t e])))"
  by (simp add: Inventory_Reserve_def traced_def split: prod.splits)

lemma traced_Cancel:
  "Inventory_Cancel (traced R) t (s, tr) =
     (case Cancel R t s of (e, s') \<Rightarrow> (handleGRPCError e, (s', tr @ [CancelCall t e])))"
  by (simp add: Inventory_Cancel_def traced_def split: prod.splits)

lemma traced_Create:
  "Order_Create (traced R) u d l (s, tr) =
     (case Create R u d l s of
        ((ord, e), s') \<Rightarrow> ((ord, handleGRPCError e), (s', tr @ [CreateCall u d l e])))"
  by (simp add: Order_Create_def traced_def split: prod.splits)

lemma reserveEvents_Nil [simp]: "reserveEvents [] toks = []"
  by (simp add: reserveEvents_def)

lemma reserveEvents_Cons [simp]:
  "reserveEvents (i # items) (t # toks) =
     ReserveCall (OrderItemRequest.ProductID i) (OrderItemRequest.Quantity i) t None
       # reserveEvents items toks"
  by (simp add: reserveEvents_def)

lemma collect_traced:
  "collectReservations (traced R) items ledger (s, tr) = ((ledger', err), (s', tr')) \<Longrightarrow>
     (err = None \<and>
        (\<exists>toks. length toks = length items \<and> ledger' = ledger @ toks
           \<and> tr' = tr @ reserveEvents items toks))
     \<or> (\<exists>pre it post toks t0 e0.
           items = pre @ it # post \<and> length toks = length pre \<and> ledger' = ledger @ toks
           \<and> err = handleGRPCError (Some e0)
           \<and> tr' = tr @ reserveEvents pre toks
                     @ [ReserveCall (OrderItemRequest.ProductID it)
                          (OrderItemRequest.Quantity it) t0 (Some e0)])"
proof (induction items arbitrary: ledger s tr)
  case Nil
  then show ?case by simp
next
  case (Cons it rest)
  obtain t e s1 where r:
    "Reserve R (OrderItemRequest.ProductID it) (OrderItemRequest.Quantity it) s = ((t, e), s1)"
    by (metis prod.exhaust)
  show ?case
  proof (cases e)
    case None
    let ?ev = "ReserveCall (OrderItemRequest.ProductID it) (OrderItemRequest.Quantity it) t None"
    from Cons.prems r None
    have "collectReservations (traced R) rest (ledger @ [t]) (s1, tr @ [?ev])
            = ((ledger', err), (s', tr'))"
      by (simp add: traced_Reserve)
    from Cons.IH [OF this] show ?thesis
    proof
      assume "err = None \<and>
        (\<exists>toks. length toks = length rest \<and> ledger' = (ledger @ [t]) @ toks
           \<and> tr' = (tr @ [?ev]) @ reserveEvents rest toks)"
      then obtain toks where "err = None" "length toks = length rest"
        "ledger' = ledger @ (t # toks)" "tr' = tr @ reserveEvents (it # rest) (t # toks)"
        by auto
      then have "err = None \<and>
        (\<exists>toks'. length toks' = length (it # rest) \<and> ledger' = ledger @ toks'
           \<and> tr' = tr @ reserveEvents (it # rest) toks')"
        by (metis length_Cons)
      then show ?thesis ..
    next
      assume "\<exists>pre it' post toks t0 e0.
           rest = pre @ it' # post \<and> length toks = length pre
           \<and> ledger' = (ledger @ [t]) @ toks
           \<and> err = handleGRPCError (Some e0)
           \<and> tr' = (tr @ [?ev]) @ reserveEvents pre toks
                     @ [ReserveCall (OrderItemRequest.ProductID it')
                          (OrderItemRequest.Quantity it') t0 (Some e0)]"
      then obtain pre it' post toks t0 e0 where h:
        "rest = pre @ it' # post" "length toks = length pre"
        "ledger' = (ledger @ [t]) @ toks" "err = handleGRPCError (Some e0)"
        "tr' = (tr @ [?ev]) @ reserveEvents pre toks
                     @ [ReserveCall (OrderItemRequest.ProductID it')
                          (OrderItemRequest.Quantity it') t0 (Some e0)]"
        by blast
      have "it # rest = (it # pre) @ it' # post \<and> length (t # toks) = length (it # pre)
           \<and> ledger' = ledger @ (t # toks)
           \<and> err = handleGRPCError (Some e0)
           \<and> tr' = tr @ reserveEvents (it # pre) (t # toks)
                     @ [ReserveCall (OrderItemRequest.ProductID it')
                          (OrderItemRequest.Quantity it') t0 (Some e0)]"
        using h by simp
      then show ?thesis by blast
    qed
  next
    case (Some e0)
    obtain e' where e': "handleGRPCError (Some e0) = Some e'"
      using handleGRPCError_Some by blast
    from Cons.prems r Some e'
    have "ledger' = ledger" "err = handleGRPCError (Some e0)"
      "tr' = tr @ [ReserveCall (OrderItemRequest.ProductID it)
                          (OrderItemRequest.Quantity it) t (Some e0)]"
      by (simp_all add: traced_Reserve)
    then have "it # rest = [] @ it # rest \<and> length ([]::string list) = length ([]::OrderItemRequest list)
           \<and> ledger' = ledger @ []
           \<and> err = handleGRPCError (Some e0)
           \<and> tr' = tr @ reserveEvents [] []
                     @ [ReserveCall (OrderItemRequest.ProductID it)
                          (OrderItemRequest.Quantity it) t (Some e0)]"
      by simp
    then show ?thesis by blast
  qed
qed

lemma compensate_traced:
  "compensate (traced R) toks (s, tr) = (s', tr') \<Longrightarrow>
     \<exists>errs. length errs = length toks \<and> tr' = tr @ cancelEvents toks errs"
proof (induction toks arbitrary: s tr)
  case Nil
  then show ?case by (simp add: cancelEvents_def)
next
  case (Cons t rest)
  obtain e s1 where c: "Cancel R t s = (e, s1)"
    by (metis prod.exhaust)
  from Cons.prems c
  have "compensate (traced R) rest (s1, tr @ [CancelCall t e]) = (s', tr')"
    by (simp add: traced_Cancel)
  from Cons.IH [OF this] obtain errs where
    "length errs = length rest" "tr' = (tr @ [CancelCall t e]) @ cancelEvents rest errs"
    by blast
  then have "length (e # errs) = length (t # rest)
     \<and> tr' = tr @ cancelEvents (t # rest) (e # errs)"
    by (simp add: cancelEvents_def)
  then show ?case by blast
qed


lemma reservations_append: "reservations (a @ b) = reservations a @ reservations b"
  by (induction a rule: reservations.induct) simp_all

lemma acquired_append: "acquired (a @ b) = acquired a @ acquired b"
  by (induction a rule: acquired.induct) simp_all

lemma cancelled_append: "cancelled (a @ b) = cancelled a @ cancelled b"
  by (induction a rule: cancelled.induct) simp_all

lemma creates_append: "creates (a @ b) = creates a @ creates b"
  by (induction a rule: creates.induct) simp_all

lemmas log_append = reservations_append acquired_append cancelled_append creates_append

lemma reserveEvents_log:
  "length toks = length items \<Longrightarrow>
     reservations (reserveEvents items toks :: 'addr Event list) = succeeded items toks
     \<and> acquired (reserveEvents items toks :: 'addr Event list) = toks
     \<and> cancelled (reserveEvents items toks :: 'addr Event list) = []
     \<and> creates (reserveEvents items toks :: 'addr Event list) = []"
  by (induction items toks rule: list_induct2') (simp_all add: succeeded_def)

lemma cancelEvents_log:
  "length errs = length toks \<Longrightarrow>
     reservations (cancelEvents toks errs :: 'addr Event list) = []
     \<and> acquired (cancelEvents toks errs :: 'addr Event list) = []
     \<and> cancelled (cancelEvents toks errs :: 'addr Event list) = toks
     \<and> creates (cancelEvents toks errs :: 'addr Event list) = []"
  by (induction toks errs rule: list_induct2') (simp_all add: cancelEvents_def)

lemma saga_trace:
  assumes run:
    "Coordinator_CreateOrder (traced R) userID draft (s, []) = ((order, err), (s', tr))"
  shows
    "(\<exists>toks s1. length toks = length (CreateOrderRequest.Items draft) \<and> err = None
        \<and> Create R userID draft toks s1 = ((order, None), s')
        \<and> tr = reserveEvents (CreateOrderRequest.Items draft) toks
               @ [CreateCall userID draft toks None])
     \<or> (\<exists>toks e0 errs. length toks = length (CreateOrderRequest.Items draft)
           \<and> length errs = length toks \<and> order = None \<and> err = handleGRPCError (Some e0)
           \<and> tr = reserveEvents (CreateOrderRequest.Items draft) toks
                  @ [CreateCall userID draft toks (Some e0)] @ cancelEvents toks errs)
     \<or> (\<exists>pre it post toks t0 e0 errs.
           CreateOrderRequest.Items draft = pre @ it # post \<and> length toks = length pre
           \<and> length errs = length toks \<and> order = None \<and> err = handleGRPCError (Some e0)
           \<and> tr = reserveEvents pre toks
                  @ [ReserveCall (OrderItemRequest.ProductID it)
                       (OrderItemRequest.Quantity it) t0 (Some e0)]
                  @ cancelEvents toks errs)"
proof -
  obtain ledger cerr s1 tr1 where col:
    "collectReservations (traced R) (CreateOrderRequest.Items draft) [] (s, [])
       = ((ledger, cerr), (s1, tr1))"
    by (metis prod.exhaust)
  from collect_traced [OF col] show ?thesis
  proof
    assume "cerr = None \<and>
      (\<exists>toks. length toks = length (CreateOrderRequest.Items draft) \<and> ledger = [] @ toks
         \<and> tr1 = [] @ reserveEvents (CreateOrderRequest.Items draft) toks)"
    then have ok: "cerr = None" "length ledger = length (CreateOrderRequest.Items draft)"
      "tr1 = reserveEvents (CreateOrderRequest.Items draft) ledger"
      by auto
    obtain ord e s2 where cr: "Create R userID draft ledger s1 = ((ord, e), s2)"
      by (metis prod.exhaust)
    show ?thesis
    proof (cases e)
      case None
      with run col ok cr
      have "order = ord" "err = None" "s' = s2"
        "tr = reserveEvents (CreateOrderRequest.Items draft) ledger
               @ [CreateCall userID draft ledger None]"
        by (simp_all add: Coordinator_CreateOrder_def traced_Create)
      with ok cr None show ?thesis by blast
    next
      case (Some e0)
      obtain e' where e': "handleGRPCError (Some e0) = Some e'"
        using handleGRPCError_Some by blast
      let ?tr2 = "tr1 @ [CreateCall userID draft ledger (Some e0)]"
      from run col ok cr Some e'
      have res: "order = None" "err = handleGRPCError (Some e0)"
        and comp: "compensate (traced R) ledger (s2, ?tr2) = (s', tr)"
        by (simp_all add: Coordinator_CreateOrder_def traced_Create)
      from compensate_traced [OF comp] obtain errs where
        "length errs = length ledger" "tr = ?tr2 @ cancelEvents ledger errs"
        by blast
      with ok res have "length ledger = length (CreateOrderRequest.Items draft)
           \<and> length errs = length ledger \<and> order = None \<and> err = handleGRPCError (Some e0)
           \<and> tr = reserveEvents (CreateOrderRequest.Items draft) ledger
                  @ [CreateCall userID draft ledger (Some e0)] @ cancelEvents ledger errs"
        by simp
      then show ?thesis by blast
    qed
  next
    assume "\<exists>pre it post toks t0 e0.
           CreateOrderRequest.Items draft = pre @ it # post \<and> length toks = length pre
           \<and> ledger = [] @ toks \<and> cerr = handleGRPCError (Some e0)
           \<and> tr1 = [] @ reserveEvents pre toks
                     @ [ReserveCall (OrderItemRequest.ProductID it)
                          (OrderItemRequest.Quantity it) t0 (Some e0)]"
    then obtain pre it post t0 e0 where f:
      "CreateOrderRequest.Items draft = pre @ it # post" "length ledger = length pre"
      "cerr = handleGRPCError (Some e0)"
      "tr1 = reserveEvents pre ledger
               @ [ReserveCall (OrderItemRequest.ProductID it)
                    (OrderItemRequest.Quantity it) t0 (Some e0)]"
      by auto
    obtain e' where e': "handleGRPCError (Some e0) = Some e'"
      using handleGRPCError_Some by blast
    from run col f(3) e'
    have res: "order = None" "err = handleGRPCError (Some e0)"
      and comp: "compensate (traced R) ledger (s1, tr1) = (s', tr)"
      by (simp_all add: Coordinator_CreateOrder_def)
    from compensate_traced [OF comp] obtain errs where
      "length errs = length ledger" "tr = tr1 @ cancelEvents ledger errs"
      by blast
    with f res have "CreateOrderRequest.Items draft = pre @ it # post
           \<and> length ledger = length pre
           \<and> length errs = length ledger \<and> order = None \<and> err = handleGRPCError (Some e0)
           \<and> tr = reserveEvents pre ledger
                  @ [ReserveCall (OrderItemRequest.ProductID it)
                       (OrderItemRequest.Quantity it) t0 (Some e0)]
                  @ cancelEvents ledger errs"
      by simp
    then show ?thesis by blast
  qed
qed


lemma succeeded_maps:
  "length toks = length items \<Longrightarrow>
     map (\<lambda>(p, q, t, e). (p, q)) (succeeded items toks)
       = map (\<lambda>i. (OrderItemRequest.ProductID i, OrderItemRequest.Quantity i)) items
     \<and> map (\<lambda>(p, q, t, e). e) (succeeded items toks) = replicate (length items) None
     \<and> map (\<lambda>(p, q, t, e). t) (succeeded items toks) = toks
     \<and> length (succeeded items toks) = length items"
  by (induction items toks rule: list_induct2') (simp_all add: succeeded_def)

lemma succeeded_nth:
  "j < length (succeeded items toks) \<Longrightarrow> succeeded items toks ! j \<noteq> (p, q, t, Some e)"
  by (simp add: succeeded_def)

lemmas saga_defs =
  Coordinator_CreateOrder_def Inventory_Reserve_def Inventory_Cancel_def Order_Create_def
  traced_def handleGRPCError_def codes_defs

lemma failingRemote_run_P1_P2:
  "Coordinator_CreateOrder (traced failingRemote) ''alice'' draft_P1_P2 (0, [])
     = ((None, Some ErrInternal), (3,
        [ReserveCall ''P1'' 2 ''T-P1'' None,
         ReserveCall ''P2'' 1 [] (Some (StatusErr codes_ResourceExhausted ''insufficient stock'')),
         CancelCall ''T-P1'' (Some (StatusErr codes_Unavailable ''inventory unreachable''))]))"
  by (simp add: saga_defs failingRemote_def draft_P1_P2_def)

lemma failingRemote_run_P1_P3:
  "Coordinator_CreateOrder (traced failingRemote) ''alice'' draft_P1_P3 (0, [])
     = ((None, Some ErrNotFound), (5,
        [ReserveCall ''P1'' 2 ''T-P1'' None,
         ReserveCall ''P3'' 1 ''T-P3'' None,
         CreateCall ''alice'' draft_P1_P3 [''T-P1'', ''T-P3'']
           (Some (StatusErr codes_NotFound ''no such user'')),
         CancelCall ''T-P1'' (Some (StatusErr codes_Unavailable ''inventory unreachable'')),
         CancelCall ''T-P3'' (Some (StatusErr codes_Unavailable ''inventory unreachable''))]))"
  by (simp add: saga_defs failingRemote_def draft_P1_P3_def)


text \<open>
  Claim C1. Take any run of the coordinator, over any remote services in any state, and
  suppose that its \<open>k\<close>-th reservation call failed with the raw failure \<open>e\<close>. Then the run
  made exactly \<open>k\<close> reservation calls, for the items 1 to \<open>k\<close> of the draft in list order,
  so none for a later item; the first \<open>k - 1\<close> of them succeeded, and the cancellation
  calls of the run are, one for one and in the same order, the tokens those calls
  acquired; Order.Create was never called; no order is returned, and the error returned is
  the error translator's image of \<open>e\<close>.
\<close>

theorem Coordinator_reservation_failure:
  assumes run:
    "Coordinator_CreateOrder (traced R) userID draft (s, []) = ((order, err), (s', tr))"
    and k: "1 \<le> k" "k \<le> length (reservations tr)"
    and fail: "reservations tr ! (k - 1) = (p, q, t, Some e)"
  shows
    "length (reservations tr) = k
     \<and> map (\<lambda>(p, q, t, e). (p, q)) (reservations tr)
         = map (\<lambda>i. (OrderItemRequest.ProductID i, OrderItemRequest.Quantity i))
             (take k (CreateOrderRequest.Items draft))
     \<and> map (\<lambda>(p, q, t, e). e) (take (k - 1) (reservations tr)) = replicate (k - 1) None
     \<and> acquired tr = map (\<lambda>(p, q, t, e). t) (take (k - 1) (reservations tr))
     \<and> cancelled tr = acquired tr
     \<and> creates tr = []
     \<and> order = None
     \<and> err = handleGRPCError (Some e)"
proof -
  from k have j: "k - 1 < length (reservations tr)" by simp
  from saga_trace [OF run] show ?thesis
  proof (elim disjE exE conjE, goal_cases)
    case (1 toks s1)
    from 1(1,4) have "reservations tr = succeeded (CreateOrderRequest.Items draft) toks"
      by (simp add: log_append reserveEvents_log)
    with j fail have "k - 1 < length (succeeded (CreateOrderRequest.Items draft) toks)"
      "succeeded (CreateOrderRequest.Items draft) toks ! (k - 1) = (p, q, t, Some e)"
      by simp_all
    with succeeded_nth show ?case by blast
  next
    case (2 toks e0 errs)
    from 2(1,2,5) have "reservations tr = succeeded (CreateOrderRequest.Items draft) toks"
      by (simp add: log_append reserveEvents_log cancelEvents_log)
    with j fail have "k - 1 < length (succeeded (CreateOrderRequest.Items draft) toks)"
      "succeeded (CreateOrderRequest.Items draft) toks ! (k - 1) = (p, q, t, Some e)"
      by simp_all
    with succeeded_nth show ?case by blast
  next
    case (3 pre it post toks t0 e0 errs)
    let ?last = "(OrderItemRequest.ProductID it, OrderItemRequest.Quantity it, t0, Some e0)"
    from 3(2,3,6) have res: "reservations tr = succeeded pre toks @ [?last]"
      by (simp add: log_append reserveEvents_log cancelEvents_log)
    have len: "length (succeeded pre toks) = length pre"
      using 3(2) by (simp add: succeeded_maps)
    have "\<not> k - 1 < length pre"
    proof
      assume lt: "k - 1 < length pre"
      with res len fail have "succeeded pre toks ! (k - 1) = (p, q, t, Some e)"
        by (simp add: nth_append)
      moreover from lt len have "k - 1 < length (succeeded pre toks)" by simp
      ultimately show False using succeeded_nth by blast
    qed
    with j res len have kk: "k - 1 = length pre" by simp
    with k have k': "k = Suc (length pre)" by simp
    from kk res len fail have e: "e = e0" by (simp add: nth_append)
    from 3(2,3,6) have acq: "acquired tr = toks" and can: "cancelled tr = toks"
      and cre: "creates tr = []"
      by (simp_all add: log_append reserveEvents_log cancelEvents_log)
    from res len k' have c1: "length (reservations tr) = k" by simp
    from res 3(1,2) k' have c2:
      "map (\<lambda>(p, q, t, e). (p, q)) (reservations tr)
         = map (\<lambda>i. (OrderItemRequest.ProductID i, OrderItemRequest.Quantity i))
             (take k (CreateOrderRequest.Items draft))"
      by (simp add: succeeded_maps)
    from res len kk 3(2) have c3:
      "map (\<lambda>(p, q, t, e). e) (take (k - 1) (reservations tr)) = replicate (k - 1) None"
      and c4: "map (\<lambda>(p, q, t, e). t) (take (k - 1) (reservations tr)) = toks"
      by (simp_all add: succeeded_maps)
    from c1 c2 c3 c4 acq can cre e 3(4,5) show ?case by simp
  qed
qed

theorem Coordinator_reservation_failure_witness:
  "Coordinator_CreateOrder (traced failingRemote) ''alice'' draft_P1_P2 (0, [])
     = ((None, Some ErrInternal), (3,
        [ReserveCall ''P1'' 2 ''T-P1'' None,
         ReserveCall ''P2'' 1 [] (Some (StatusErr codes_ResourceExhausted ''insufficient stock'')),
         CancelCall ''T-P1'' (Some (StatusErr codes_Unavailable ''inventory unreachable''))]))
   \<and> reservations
        [ReserveCall ''P1'' 2 ''T-P1'' None,
         ReserveCall ''P2'' 1 [] (Some (StatusErr codes_ResourceExhausted ''insufficient stock'')),
         CancelCall ''T-P1'' (Some (StatusErr codes_Unavailable ''inventory unreachable''))
           :: string Event] ! (2 - 1)
       = (''P2'', 1, [], Some (StatusErr codes_ResourceExhausted ''insufficient stock''))
   \<and> cancelled
        [ReserveCall ''P1'' 2 ''T-P1'' None,
         ReserveCall ''P2'' 1 [] (Some (StatusErr codes_ResourceExhausted ''insufficient stock'')),
         CancelCall ''T-P1'' (Some (StatusErr codes_Unavailable ''inventory unreachable''))
           :: string Event] = [''T-P1'']
   \<and> creates
        [ReserveCall ''P1'' 2 ''T-P1'' None,
         ReserveCall ''P2'' 1 [] (Some (StatusErr codes_ResourceExhausted ''insufficient stock'')),
         CancelCall ''T-P1'' (Some (StatusErr codes_Unavailable ''inventory unreachable''))
           :: string Event] = []
   \<and> Some ErrInternal
       = handleGRPCError (Some (StatusErr codes_ResourceExhausted ''insufficient stock''))"
  using Coordinator_reservation_failure [OF failingRemote_run_P1_P2, of 2
      "''P2''" 1 "[]" "StatusErr codes_ResourceExhausted ''insufficient stock''"]
  by (simp add: failingRemote_run_P1_P2)

text \<open>
  Claim C4. Take any run of the coordinator in which a call of Order.Create failed with
  the raw failure \<open>e\<close>. Then all \<open>N\<close> items of the draft were reserved, in list order and
  each with success, Order.Create was called once, with the \<open>N\<close> tokens acquired, and
  after it the run made one cancellation call for each of those tokens, oldest first
  and nothing else. No order is returned, and the error returned is the translator's
  image of \<open>e\<close>, whatever the cancellation calls answered.
\<close>

theorem Coordinator_create_failure:
  assumes run:
    "Coordinator_CreateOrder (traced R) userID draft (s, []) = ((order, err), (s', tr))"
    and cf: "(u, d, l, Some e) \<in> set (creates tr)"
  shows
    "length (reservations tr) = length (CreateOrderRequest.Items draft)
     \<and> map (\<lambda>(p, q, t, e). (p, q)) (reservations tr)
         = map (\<lambda>i. (OrderItemRequest.ProductID i, OrderItemRequest.Quantity i))
             (CreateOrderRequest.Items draft)
     \<and> map (\<lambda>(p, q, t, e). e) (reservations tr)
         = replicate (length (CreateOrderRequest.Items draft)) None
     \<and> acquired tr = map (\<lambda>(p, q, t, e). t) (reservations tr)
     \<and> creates tr = [(userID, draft, acquired tr, Some e)]
     \<and> cancelled tr = acquired tr
     \<and> (\<exists>errs. length errs = length (acquired tr)
           \<and> tr = reserveEvents (CreateOrderRequest.Items draft) (acquired tr)
                  @ [CreateCall userID draft (acquired tr) (Some e)]
                  @ cancelEvents (acquired tr) errs)
     \<and> order = None
     \<and> err = handleGRPCError (Some e)"
proof -
  from saga_trace [OF run] show ?thesis
  proof (elim disjE exE conjE, goal_cases)
    case (1 toks s1)
    from 1(1,4) have "creates tr = [(userID, draft, toks, None)]"
      by (simp add: log_append reserveEvents_log)
    with cf show ?case by simp
  next
    case (2 toks e0 errs)
    from 2(1,2,5) have cre: "creates tr = [(userID, draft, toks, Some e0)]"
      and acq: "acquired tr = toks" and can: "cancelled tr = toks"
      and res: "reservations tr = succeeded (CreateOrderRequest.Items draft) toks"
      by (simp_all add: log_append reserveEvents_log
          cancelEvents_log)
    from cre cf have e: "e = e0" by simp
    from res 2(1) have c1: "length (reservations tr) = length (CreateOrderRequest.Items draft)"
      and c2: "map (\<lambda>(p, q, t, e). (p, q)) (reservations tr)
         = map (\<lambda>i. (OrderItemRequest.ProductID i, OrderItemRequest.Quantity i))
             (CreateOrderRequest.Items draft)"
      and c3: "map (\<lambda>(p, q, t, e). e) (reservations tr)
         = replicate (length (CreateOrderRequest.Items draft)) None"
      and c4: "map (\<lambda>(p, q, t, e). t) (reservations tr) = toks"
      by (simp_all add: succeeded_maps)
    from 2(2,5) acq e have c5: "\<exists>errs. length errs = length (acquired tr)
           \<and> tr = reserveEvents (CreateOrderRequest.Items draft) (acquired tr)
                  @ [CreateCall userID draft (acquired tr) (Some e)]
                  @ cancelEvents (acquired tr) errs"
      by auto
    from c1 c2 c3 c4 c5 cre acq can e 2(3,4) show ?case by simp
  next
    case (3 pre it post toks t0 e0 errs)
    from 3(2,3,6) have "creates tr = []"
      by (simp add: log_append reserveEvents_log cancelEvents_log)
    with cf show ?case by simp
  qed
qed

theorem Coordinator_create_failure_witness:
  "Coordinator_CreateOrder (traced failingRemote) ''alice'' draft_P1_P3 (0, [])
     = ((None, Some ErrNotFound), (5,
        [ReserveCall ''P1'' 2 ''T-P1'' None,
         ReserveCall ''P3'' 1 ''T-P3'' None,
         CreateCall ''alice'' draft_P1_P3 [''T-P1'', ''T-P3'']
           (Some (StatusErr codes_NotFound ''no such user'')),
         CancelCall ''T-P1'' (Some (StatusErr codes_Unavailable ''inventory unreachable'')),
         CancelCall ''T-P3'' (Some (StatusErr codes_Unavailable ''inventory unreachable''))]))
   \<and> cancelled
        [ReserveCall ''P1'' 2 ''T-P1'' None,
         ReserveCall ''P3'' 1 ''T-P3'' None,
         CreateCall ''alice'' draft_P1_P3 [''T-P1'', ''T-P3'']
           (Some (StatusErr codes_NotFound ''no such user'')),
         CancelCall ''T-P1'' (Some (StatusErr codes_Unavailable ''inventory unreachable'')),
         CancelCall ''T-P3'' (Some (StatusErr codes_Unavailable ''inventory unreachable''))]
       = [''T-P1'', ''T-P3'']
   \<and> Some ErrNotFound = handleGRPCError (Some (StatusErr codes_NotFound ''no such user''))"
  using Coordinator_create_failure [OF failingRemote_run_P1_P3, of "''alice''" draft_P1_P3
      "[''T-P1'', ''T-P3'']" "StatusErr codes_NotFound ''no such user''"]
  by (simp add: failingRemote_run_P1_P3)




end
